theory Spec2Isabelle
  imports Complex_Main "HOL-Library.Sublist"
begin

section \<open>sam\_sexing: sexing samples from the Y/X read-count ratio\<close>

text \<open>
  A shallow embedding of \<^verbatim>\<open>main\<close> of \<^verbatim>\<open>sam_sexing.py\<close>, lines 129 to 218: the loop
  over the directory listing, the scan of one idxstats file, the classification of one
  sample and the choice of the columns of the table that is written.

  Conventions of the model.
  \<^item> A Python exception is an \<open>Inl\<close> value of \<open>py_error + 'a\<close>; it leaves \<^verbatim>\<open>main\<close> at
    once, since the source catches nothing before the table is written.
  \<^item> The local variables of \<^verbatim>\<open>main\<close> live in one record. Python keeps a local variable
    from one iteration of a loop to the next and raises UnboundLocalError when one is read
    before its first assignment, so a variable is \<open>Unbound\<close> or \<open>Bound v\<close>.
  \<^item> Python's \<^verbatim>\<open>None\<close> is \<open>None\<close> of an option type.
  \<^item> A Python float is modelled by an exact rational: rounding, infinities and NaN are
    outside the model. \<^verbatim>\<open>float(n)\<close> of an integer too large for a double raises
    OverflowError, division by zero raises ZeroDivisionError; both are branches.
  \<^item> The directory is the list of its entries in the order \<^verbatim>\<open>os.listdir\<close> returns
    them, each a file name with the lines of the file (a readable text file).
  \<^item> Strings are lists of 8-bit characters.
  \<^item> Console output and the plots are not modelled.
\<close>

subsection \<open>Python values and built-ins\<close>

datatype py_error =
    IndexError
  | ValueError
  | ZeroDivisionError
  | OverflowError
  | UnboundLocalError
  | Exception string

datatype 'a pyvar = Unbound | Bound 'a

text \<open>Sequencing of two computations that may raise.\<close>

definition and_then :: "py_error + 'a \<Rightarrow> ('a \<Rightarrow> py_error + 'b) \<Rightarrow> py_error + 'b" where
  "and_then m f = (case m of Inl e \<Rightarrow> Inl e | Inr v \<Rightarrow> f v)"

text \<open>Reading a local variable.\<close>

definition read_var :: "'a pyvar \<Rightarrow> py_error + 'a" where
  "read_var v = (case v of Unbound \<Rightarrow> Inl UnboundLocalError | Bound x \<Rightarrow> Inr x)"

text \<open>\<^verbatim>\<open>needle in line\<close> on strings: a contiguous occurrence; the empty string occurs
  in every string.\<close>

fun py_in :: "string \<Rightarrow> string \<Rightarrow> bool" where
  "py_in needle [] = (needle = [])"
| "py_in needle (c # cs) = (prefix needle (c # cs) \<or> py_in needle cs)"

text \<open>\<^verbatim>\<open>s.split(sep)\<close> for a one-character separator: never an empty list.\<close>

fun str_split :: "char \<Rightarrow> string \<Rightarrow> string list" where
  "str_split sep [] = [[]]"
| "str_split sep (c # cs) =
     (if c = sep then [] # str_split sep cs
      else (case str_split sep cs of
              [] \<Rightarrow> [[c]]
            | f # fs \<Rightarrow> (c # f) # fs))"

text \<open>\<^verbatim>\<open>xs[i]\<close> for an index \<open>i \<ge> 0\<close>.\<close>

definition index :: "'a list \<Rightarrow> nat \<Rightarrow> py_error + 'a" where
  "index xs i = (if i < length xs then Inr (xs ! i) else Inl IndexError)"

text \<open>
  \<^verbatim>\<open>int(s)\<close> on a string, base 10: white space is stripped at both ends, one sign is
  allowed, then decimal digits, where single underscores may stand between digits.
  Anything else raises ValueError.
\<close>

definition is_space :: "char \<Rightarrow> bool" where
  "is_space c = (let n = (of_char c :: nat)
                 in (9 \<le> n \<and> n \<le> 13) \<or> (28 \<le> n \<and> n \<le> 32))"

definition is_digit :: "char \<Rightarrow> bool" where
  "is_digit c = (let n = (of_char c :: nat) in 48 \<le> n \<and> n \<le> 57)"

definition strip :: "string \<Rightarrow> string" where
  "strip s = rev (dropWhile is_space (rev (dropWhile is_space s)))"

fun int_literal :: "string \<Rightarrow> bool" where
  "int_literal [] = False"
| "int_literal [c] = is_digit c"
| "int_literal (c # d # s) =
     (is_digit c \<and> (if d = CHR ''_'' then int_literal s else int_literal (d # s)))"

definition digits_value :: "string \<Rightarrow> int" where
  "digits_value s =
     foldl (\<lambda>acc c. 10 * acc + (int (of_char c) - 48)) 0 (filter (\<lambda>c. c \<noteq> CHR ''_'') s)"

definition py_int :: "string \<Rightarrow> py_error + int" where
  "py_int s =
     (let t = strip s;
          (neg, u) = (case t of
                        [] \<Rightarrow> (False, [])
                      | c # cs \<Rightarrow> if c = CHR ''-'' then (True, cs)
                                  else if c = CHR ''+'' then (False, cs)
                                  else (False, t))
      in if int_literal u then Inr (if neg then - digits_value u else digits_value u)
         else Inl ValueError)"

text \<open>
  \<^verbatim>\<open>float(n)\<close> on an integer: OverflowError from \<open>2^1024 - 2^970\<close> on, the first
  integer that rounds to \<open>2^1024\<close>.
\<close>

definition py_float :: "int \<Rightarrow> py_error + rat" where
  "py_float n = (if \<bar>n\<bar> < 2 ^ 1024 - 2 ^ 970 then Inr (of_int n) else Inl OverflowError)"

definition float_div :: "rat \<Rightarrow> rat \<Rightarrow> py_error + rat" where
  "float_div a b = (if b = 0 then Inl ZeroDivisionError else Inr (a / b))"

text \<open>
  \<^verbatim>\<open>os.path.splitext\<close> on a name without a directory separator: the extension starts
  at the last dot, unless only dots come before it.
\<close>

definition splitext :: "string \<Rightarrow> string \<times> string" where
  "splitext p =
     (let root = rev (drop 1 (dropWhile (\<lambda>c. c \<noteq> CHR ''.'') (rev p)))
      in if CHR ''.'' \<in> set p \<and> (\<exists>c \<in> set root. c \<noteq> CHR ''.'')
         then (root, drop (length root) p)
         else (p, []))"

definition startswith_dot :: "string \<Rightarrow> bool" where
  "startswith_dot s = (case s of [] \<Rightarrow> False | c # _ \<Rightarrow> c = CHR ''.'')"

subsection \<open>Arguments, local variables, rows\<close>

text \<open>The fields of \<^verbatim>\<open>args\<close> that lines 129 to 218 read. The defaults of the parser
  are \<open>min_y = 0\<close>, \<open>min_x = 1\<close>, \<open>ext = ''.txt''\<close>, no thresholds, one-threshold mode.\<close>

record args =
  ychrom :: string
  xchrom :: string
  arg_threshold :: "rat option"
  min_y :: int
  min_x :: int
  two_thresholds :: bool
  upper_threshold :: "rat option"
  lower_threshold :: "rat option"
  ext :: string

text \<open>One element of \<^verbatim>\<open>data\<close>: the list
  \<^verbatim>\<open>[sample_name, sex, nreads_ychrom, nreads_xchrom, ratio, threshold]\<close>.\<close>

record row =
  col_id :: string
  col_sex :: string
  col_nreads_ychrom :: "int option"
  col_nreads_xchrom :: "int option"
  col_ratio :: "rat option"
  col_threshold :: "rat option"

text \<open>The local variables of \<^verbatim>\<open>main\<close> that the loop assigns.\<close>

record locals =
  sex :: "string pyvar"
  nreads_ychrom :: "int option"
  nreads_xchrom :: "int option"
  seqlen_ychrom :: "int pyvar"
  seqlen_xchrom :: "int pyvar"
  ratio :: "rat option pyvar"
  threshold :: "rat option pyvar"
  data :: "row list"

definition initial :: locals where
  "initial = \<lparr>sex = Unbound, nreads_ychrom = None, nreads_xchrom = None,
              seqlen_ychrom = Unbound, seqlen_xchrom = Unbound,
              ratio = Unbound, threshold = Unbound, data = []\<rparr>"

subsection \<open>Scanning one file (lines 143 to 152)\<close>

text \<open>\<^verbatim>\<open>int(line.split('\t')[i])\<close>.\<close>

definition field :: "string \<Rightarrow> nat \<Rightarrow> py_error + int" where
  "field line i = and_then (index (str_split (CHR 0x09) line) i) py_int"

text \<open>The body of \<^verbatim>\<open>for line in lines\<close>.\<close>

definition scan_line :: "args \<Rightarrow> string \<Rightarrow> locals \<Rightarrow> py_error + locals" where
  "scan_line a line st =
     (if py_in (ychrom a) line then
        and_then (field line 2) (\<lambda>n.
        and_then (field line 1) (\<lambda>l.
          Inr (st\<lparr>nreads_ychrom := Some n, seqlen_ychrom := Bound l\<rparr>)))
      else if py_in (xchrom a) line then
        and_then (field line 2) (\<lambda>n.
        and_then (field line 1) (\<lambda>l.
          Inr (st\<lparr>nreads_xchrom := Some n, seqlen_xchrom := Bound l\<rparr>)))
      else Inr st)"

fun scan_lines :: "args \<Rightarrow> string list \<Rightarrow> locals \<Rightarrow> py_error + locals" where
  "scan_lines a [] st = Inr st"
| "scan_lines a (line # lines) st = and_then (scan_line a line st) (scan_lines a lines)"

text \<open>Lines 143 to 152: both counts are reset, then the file is scanned.\<close>

definition read_file :: "args \<Rightarrow> string list \<Rightarrow> locals \<Rightarrow> py_error + locals" where
  "read_file a lines st =
     scan_lines a lines (st\<lparr>nreads_ychrom := None, nreads_xchrom := None\<rparr>)"

subsection \<open>Classifying one sample (lines 157 to 201)\<close>

text \<open>The exception of lines 178 to 181.\<close>

definition thresholds_missing :: py_error where
  "thresholds_missing =
     Exception (''You must specify --lower_threshold '' @
                ''and --upper_threshold when using '' @
                ''--two_thresholds option'')"

definition classify :: "args \<Rightarrow> locals \<Rightarrow> py_error + locals" where
  "classify a st =
     (case (nreads_ychrom st, nreads_xchrom st) of
        (Some ny, Some nx) \<Rightarrow>
          if ny < min_y a \<or> nx < min_x a then
            Inr (st\<lparr>sex := Bound ''undetermined''\<rparr>)
          else
            and_then (py_float ny) (\<lambda>fy.
            and_then (py_float nx) (\<lambda>fx.
            and_then (float_div fy fx) (\<lambda>r.
              let st1 = st\<lparr>ratio := Bound (Some r)\<rparr> in
              if two_thresholds a then
                (case (lower_threshold a, upper_threshold a) of
                   (Some lo, Some up) \<Rightarrow>
                     if up < r then Inr (st1\<lparr>sex := Bound ''male''\<rparr>)
                     else if lo > r then Inr (st1\<lparr>sex := Bound ''female''\<rparr>)
                     else Inr (st1\<lparr>sex := Bound ''undetermined''\<rparr>)
                 | _ \<Rightarrow> Inl thresholds_missing)
              else
                and_then
                  (case arg_threshold a of
                     None \<Rightarrow>
                       and_then (read_var (seqlen_ychrom st1)) (\<lambda>sy.
                       and_then (py_float sy) (\<lambda>fsy.
                       and_then (read_var (seqlen_xchrom st1)) (\<lambda>sx.
                       and_then (py_float sx) (\<lambda>fsx.
                         float_div (fsy * (1 / 4)) fsx))))
                   | Some t \<Rightarrow> Inr t)
                  (\<lambda>t. let st2 = st1\<lparr>threshold := Bound (Some t)\<rparr> in
                        if t < r then Inr (st2\<lparr>sex := Bound ''male''\<rparr>)
                        else Inr (st2\<lparr>sex := Bound ''female''\<rparr>)))))
      | _ \<Rightarrow>
          Inr (st\<lparr>sex := Bound ''undetermined'', ratio := Bound None,
                  threshold := Bound None\<rparr>))"

subsection \<open>Appending the row (lines 203 and 204)\<close>

definition append_row :: "string \<Rightarrow> locals \<Rightarrow> py_error + locals" where
  "append_row sample_name st =
     and_then (read_var (sex st)) (\<lambda>s.
     and_then (read_var (ratio st)) (\<lambda>r.
     and_then (read_var (threshold st)) (\<lambda>t.
       Inr (st\<lparr>data := data st @
                 [\<lparr>col_id = sample_name, col_sex = s,
                   col_nreads_ychrom = nreads_ychrom st,
                   col_nreads_xchrom = nreads_xchrom st,
                   col_ratio = r, col_threshold = t\<rparr>]\<rparr>))))"

subsection \<open>The loop over the directory (lines 133 to 204)\<close>

definition selected :: "args \<Rightarrow> string \<Rightarrow> bool" where
  "selected a file_name = (\<not> startswith_dot file_name \<and> snd (splitext file_name) = ext a)"

definition process_sample :: "args \<Rightarrow> string \<times> string list \<Rightarrow> locals \<Rightarrow> py_error + locals" where
  "process_sample a entry st =
     and_then (read_file a (snd entry) st) (\<lambda>st1.
     and_then (classify a st1) (\<lambda>st2.
       append_row (fst (splitext (fst entry))) st2))"

definition process_entry :: "args \<Rightarrow> string \<times> string list \<Rightarrow> locals \<Rightarrow> py_error + locals" where
  "process_entry a entry st =
     (if selected a (fst entry) then process_sample a entry st else Inr st)"

fun loop :: "args \<Rightarrow> (string \<times> string list) list \<Rightarrow> locals \<Rightarrow> py_error + locals" where
  "loop a [] st = Inr st"
| "loop a (entry # entries) st = and_then (process_entry a entry st) (loop a entries)"

subsection \<open>The table that is written (lines 129, 206 to 218)\<close>

datatype cell = CStr string | CInt "int option" | CFloat "rat option"

record frame =
  columns :: "string list"
  cells :: "cell list list"

definition col_names :: "string list" where
  "col_names = [''id'', ''sex'', ''nreads_ychrom'', ''nreads_xchrom'', ''ratio'',
                ''threshold'']"

definition row_cells :: "row \<Rightarrow> cell list" where
  "row_cells r = [CStr (col_id r), CStr (col_sex r), CInt (col_nreads_ychrom r),
                  CInt (col_nreads_xchrom r), CFloat (col_ratio r),
                  CFloat (col_threshold r)]"

definition DataFrame :: "row list \<Rightarrow> frame" where
  "DataFrame rs = \<lparr>columns = col_names, cells = map row_cells rs\<rparr>"

text \<open>\<^verbatim>\<open>df.drop(name, axis=1)\<close>.\<close>

definition drop_column :: "string \<Rightarrow> frame \<Rightarrow> frame" where
  "drop_column name df =
     \<lparr>columns = filter (\<lambda>n. n \<noteq> name) (columns df),
      cells = map (\<lambda>cs. map snd (filter (\<lambda>p. fst p \<noteq> name) (zip (columns df) cs)))
                  (cells df)\<rparr>"

text \<open>\<^verbatim>\<open>df_sexing["threshold"].dropna().unique()\<close>: the distinct thresholds that are
  not \<^verbatim>\<open>None\<close>, in order of first occurrence.\<close>

definition dropna_unique :: "row list \<Rightarrow> rat list" where
  "dropna_unique rs = remdups (List.map_filter col_threshold rs)"

text \<open>The test of line 210.\<close>

definition uniform_threshold :: "row list \<Rightarrow> bool" where
  "uniform_threshold rs = (length (dropna_unique rs) = 1)"

text \<open>Lines 206 to 218: the frame that \<^verbatim>\<open>to_csv\<close> receives.\<close>

definition written :: "row list \<Rightarrow> frame" where
  "written rs =
     (if uniform_threshold rs then drop_column ''threshold'' (DataFrame rs)
      else DataFrame rs)"

definition main :: "args \<Rightarrow> (string \<times> string list) list \<Rightarrow> py_error + frame" where
  "main a dir = and_then (loop a dir initial) (\<lambda>st. Inr (written (data st)))"

subsection \<open>Vocabulary of the properties\<close>

text \<open>Both counts were found in the file and each meets its minimum (the test of line 157
  fails and the test of line 167 fails): the sample reaches line 171.\<close>

definition floors_met :: "args \<Rightarrow> locals \<Rightarrow> bool" where
  "floors_met a st =
     (case (nreads_ychrom st, nreads_xchrom st) of
        (Some ny, Some nx) \<Rightarrow> \<not> (ny < min_y a \<or> nx < min_x a)
      | _ \<Rightarrow> False)"

subsection \<open>Example inputs\<close>

text \<open>One line of an idxstats file: name, length, mapped reads, unmapped reads.\<close>

definition idxstats_line :: "string \<Rightarrow> string \<Rightarrow> string \<Rightarrow> string" where
  "idxstats_line name len n =
     name @ [CHR 0x09] @ len @ [CHR 0x09] @ n @ [CHR 0x09] @ ''0'' @ [CHR 0x0A]"

text \<open>The defaults of the parser, with the two required chromosome names.\<close>

definition defaults :: args where
  "defaults = \<lparr>ychrom = ''chrY'', xchrom = ''chrX'', arg_threshold = None,
               min_y = 0, min_x = 1, two_thresholds = False,
               upper_threshold = None, lower_threshold = None, ext = ''.txt''\<rparr>"

definition file_A :: "string \<times> string list" where
  "file_A = (''A.txt'', [idxstats_line ''chrY'' ''1000'' ''50'',
                         idxstats_line ''chrX'' ''2000'' ''5''])"

text \<open>No read on X: below the default \<open>min_x = 1\<close>.\<close>

definition file_B :: "string \<times> string list" where
  "file_B = (''B.txt'', [idxstats_line ''chrY'' ''1000'' ''50'',
                         idxstats_line ''chrX'' ''2000'' ''0''])"

definition file_C :: "string \<times> string list" where
  "file_C = (''C.txt'', [idxstats_line ''chrY'' ''1000'' ''30'',
                         idxstats_line ''chrX'' ''4000'' ''10''])"

text \<open>Neither name occurs.\<close>

definition file_D :: "string \<times> string list" where
  "file_D = (''D.txt'', [idxstats_line ''chr1'' ''9000'' ''70''])"

text \<open>Two lines contain the Y name.\<close>

definition file_E :: "string \<times> string list" where
  "file_E = (''E.txt'', [idxstats_line ''chrY'' ''1000'' ''50'',
                         idxstats_line ''chrY_random'' ''500'' ''7'',
                         idxstats_line ''chrX'' ''2000'' ''5''])"



section \<open>Properties\<close>

subsection \<open>Sequencing and variables\<close>

lemma and_then_Inl: "and_then (Inl e) f = Inl e"
  by (simp add: and_then_def)

lemma and_then_Inr: "and_then (Inr v) f = f v"
  by (simp add: and_then_def)

lemma and_then_eq_Inr: "and_then m f = Inr y \<longleftrightarrow> (\<exists>v. m = Inr v \<and> f v = Inr y)"
  by (cases m) (simp_all add: and_then_def)

lemma read_var_eq_Inr: "read_var v = Inr x \<longleftrightarrow> v = Bound x"
  by (cases v) (simp_all add: read_var_def)

lemma scan_line_y_sets:
  assumes "py_in (ychrom a) l" and "scan_line a l st = Inr st'"
  shows "\<exists>n len. field l 2 = Inr n \<and> field l 1 = Inr len \<and>
           st' = st\<lparr>nreads_ychrom := Some n, seqlen_ychrom := Bound len\<rparr>"
  using assms by (auto simp: scan_line_def and_then_eq_Inr)

lemma scan_line_x_sets:
  assumes "\<not> py_in (ychrom a) l" and "py_in (xchrom a) l" and "scan_line a l st = Inr st'"
  shows "\<exists>n len. field l 2 = Inr n \<and> field l 1 = Inr len \<and>
           st' = st\<lparr>nreads_xchrom := Some n, seqlen_xchrom := Bound len\<rparr>"
  using assms by (auto simp: scan_line_def and_then_eq_Inr)

lemma scan_line_other:
  assumes "\<not> py_in (ychrom a) l" and "\<not> py_in (xchrom a) l"
  shows "scan_line a l st = Inr st"
  using assms by (simp add: scan_line_def)

lemma scan_line_keeps_y:
  assumes "\<not> py_in (ychrom a) l" and "scan_line a l st = Inr st'"
  shows "nreads_ychrom st' = nreads_ychrom st \<and> seqlen_ychrom st' = seqlen_ychrom st"
  using assms by (auto simp: scan_line_def and_then_eq_Inr split: if_splits)

lemma scan_line_keeps_x:
  assumes "py_in (ychrom a) l \<or> \<not> py_in (xchrom a) l" and "scan_line a l st = Inr st'"
  shows "nreads_xchrom st' = nreads_xchrom st \<and> seqlen_xchrom st' = seqlen_xchrom st"
  using assms by (auto simp: scan_line_def and_then_eq_Inr split: if_splits)

lemma scan_line_keeps_rest:
  assumes "scan_line a l st = Inr st'"
  shows "sex st' = sex st \<and> ratio st' = ratio st \<and> threshold st' = threshold st \<and>
         data st' = data st"
  using assms by (auto simp: scan_line_def and_then_eq_Inr split: if_splits)

lemma scan_lines_append:
  "scan_lines a (xs @ ys) st = and_then (scan_lines a xs st) (scan_lines a ys)"
proof (induction xs arbitrary: st)
  case Nil
  show ?case by (simp add: and_then_Inr)
next
  case (Cons x xs)
  show ?case
  proof (cases "scan_line a x st")
    case (Inl e)
    then show ?thesis by (simp add: and_then_Inl)
  next
    case (Inr st1)
    then show ?thesis by (simp add: and_then_Inr Cons.IH)
  qed
qed

lemma scan_lines_keeps_y:
  assumes "\<forall>m \<in> set ls. \<not> py_in (ychrom a) m" and "scan_lines a ls st = Inr st'"
  shows "nreads_ychrom st' = nreads_ychrom st \<and> seqlen_ychrom st' = seqlen_ychrom st"
  using assms
proof (induction ls arbitrary: st)
  case Nil
  then show ?case by simp
next
  case (Cons l ls)
  from Cons.prems(2) obtain st1 where 1: "scan_line a l st = Inr st1"
    and 2: "scan_lines a ls st1 = Inr st'"
    by (auto simp: and_then_eq_Inr)
  from Cons.prems(1) have "\<not> py_in (ychrom a) l" by simp
  with 1 have "nreads_ychrom st1 = nreads_ychrom st \<and> seqlen_ychrom st1 = seqlen_ychrom st"
    by (rule scan_line_keeps_y[rotated])
  moreover from Cons.prems(1) 2
  have "nreads_ychrom st' = nreads_ychrom st1 \<and> seqlen_ychrom st' = seqlen_ychrom st1"
    by (intro Cons.IH) simp_all
  ultimately show ?case by simp
qed

lemma scan_lines_keeps_x:
  assumes "\<forall>m \<in> set ls. py_in (ychrom a) m \<or> \<not> py_in (xchrom a) m"
    and "scan_lines a ls st = Inr st'"
  shows "nreads_xchrom st' = nreads_xchrom st \<and> seqlen_xchrom st' = seqlen_xchrom st"
  using assms
proof (induction ls arbitrary: st)
  case Nil
  then show ?case by simp
next
  case (Cons l ls)
  from Cons.prems(2) obtain st1 where 1: "scan_line a l st = Inr st1"
    and 2: "scan_lines a ls st1 = Inr st'"
    by (auto simp: and_then_eq_Inr)
  from Cons.prems(1) have "py_in (ychrom a) l \<or> \<not> py_in (xchrom a) l" by simp
  with 1 have "nreads_xchrom st1 = nreads_xchrom st \<and> seqlen_xchrom st1 = seqlen_xchrom st"
    by (rule scan_line_keeps_x[rotated])
  moreover from Cons.prems(1) 2
  have "nreads_xchrom st' = nreads_xchrom st1 \<and> seqlen_xchrom st' = seqlen_xchrom st1"
    by (intro Cons.IH) simp_all
  ultimately show ?case by simp
qed

lemma scan_lines_keeps_rest:
  assumes "scan_lines a ls st = Inr st'"
  shows "sex st' = sex st \<and> ratio st' = ratio st \<and> threshold st' = threshold st \<and>
         data st' = data st"
  using assms
proof (induction ls arbitrary: st)
  case Nil
  then show ?case by simp
next
  case (Cons l ls)
  from Cons.prems obtain st1 where 1: "scan_line a l st = Inr st1"
    and 2: "scan_lines a ls st1 = Inr st'"
    by (auto simp: and_then_eq_Inr)
  from scan_line_keeps_rest[OF 1] Cons.IH[OF 2] show ?case by simp
qed

lemma scan_lines_last_y:
  assumes "scan_lines a (pre @ l # post) st = Inr st'"
    and "py_in (ychrom a) l" and "\<forall>m \<in> set post. \<not> py_in (ychrom a) m"
  shows "\<exists>n len. field l 2 = Inr n \<and> field l 1 = Inr len \<and>
           nreads_ychrom st' = Some n \<and> seqlen_ychrom st' = Bound len"
proof -
  from assms(1) obtain st1 st2 where 1: "scan_lines a pre st = Inr st1"
    and 2: "scan_line a l st1 = Inr st2" and 3: "scan_lines a post st2 = Inr st'"
    by (auto simp: scan_lines_append and_then_eq_Inr)
  from scan_line_y_sets[OF assms(2) 2] obtain n len where
    f: "field l 2 = Inr n" "field l 1 = Inr len"
    and s: "st2 = st1\<lparr>nreads_ychrom := Some n, seqlen_ychrom := Bound len\<rparr>"
    by blast
  from scan_lines_keeps_y[OF assms(3) 3] s
  have "nreads_ychrom st' = Some n \<and> seqlen_ychrom st' = Bound len" by simp
  with f show ?thesis by blast
qed

lemma scan_lines_last_x:
  assumes "scan_lines a (pre @ l # post) st = Inr st'"
    and "\<not> py_in (ychrom a) l" and "py_in (xchrom a) l"
    and "\<forall>m \<in> set post. py_in (ychrom a) m \<or> \<not> py_in (xchrom a) m"
  shows "\<exists>n len. field l 2 = Inr n \<and> field l 1 = Inr len \<and>
           nreads_xchrom st' = Some n \<and> seqlen_xchrom st' = Bound len"
proof -
  from assms(1) obtain st1 st2 where 1: "scan_lines a pre st = Inr st1"
    and 2: "scan_line a l st1 = Inr st2" and 3: "scan_lines a post st2 = Inr st'"
    by (auto simp: scan_lines_append and_then_eq_Inr)
  from scan_line_x_sets[OF assms(2,3) 2] obtain n len where
    f: "field l 2 = Inr n" "field l 1 = Inr len"
    and s: "st2 = st1\<lparr>nreads_xchrom := Some n, seqlen_xchrom := Bound len\<rparr>"
    by blast
  from scan_lines_keeps_x[OF assms(4) 3] s
  have "nreads_xchrom st' = Some n \<and> seqlen_xchrom st' = Bound len" by simp
  with f show ?thesis by blast
qed

text \<open>A count that the scan found comes from a line of the file, with its length.\<close>

lemma scan_lines_found_y:
  assumes "scan_lines a ls st = Inr st'"
  shows "(nreads_ychrom st' = nreads_ychrom st \<and> seqlen_ychrom st' = seqlen_ychrom st) \<or>
         (\<exists>l \<in> set ls. \<exists>n len. py_in (ychrom a) l \<and> field l 2 = Inr n \<and> field l 1 = Inr len \<and>
              nreads_ychrom st' = Some n \<and> seqlen_ychrom st' = Bound len)"
proof (cases "\<exists>l \<in> set ls. py_in (ychrom a) l")
  case False
  with scan_lines_keeps_y[OF _ assms] show ?thesis by blast
next
  case True
  then obtain pre l post where d: "ls = pre @ l # post" and l: "py_in (ychrom a) l"
    and post: "\<forall>m \<in> set post. \<not> py_in (ychrom a) m"
    using split_list_last_prop[of ls "\<lambda>l. py_in (ychrom a) l"] by blast
  from scan_lines_last_y[OF assms[unfolded d] l post] d l show ?thesis by auto
qed

lemma scan_lines_found_x:
  assumes "scan_lines a ls st = Inr st'"
  shows "(nreads_xchrom st' = nreads_xchrom st \<and> seqlen_xchrom st' = seqlen_xchrom st) \<or>
         (\<exists>l \<in> set ls. \<exists>n len. py_in (xchrom a) l \<and> field l 2 = Inr n \<and> field l 1 = Inr len \<and>
              nreads_xchrom st' = Some n \<and> seqlen_xchrom st' = Bound len)"
proof (cases "\<exists>l \<in> set ls. \<not> py_in (ychrom a) l \<and> py_in (xchrom a) l")
  case False
  with scan_lines_keeps_x[OF _ assms] show ?thesis by blast
next
  case True
  then obtain pre l post where d: "ls = pre @ l # post"
    and l: "\<not> py_in (ychrom a) l" "py_in (xchrom a) l"
    and post: "\<forall>m \<in> set post. py_in (ychrom a) m \<or> \<not> py_in (xchrom a) m"
    using split_list_last_prop[of ls "\<lambda>l. \<not> py_in (ychrom a) l \<and> py_in (xchrom a) l"] by blast
  from scan_lines_last_x[OF assms[unfolded d] l post] d l show ?thesis by auto
qed


subsection \<open>Classification, row and loop\<close>

lemma py_float_eq_Inr: "py_float n = Inr f \<Longrightarrow> f = of_int n"
  by (simp add: py_float_def split: if_splits)

lemma float_div_eq_Inr: "float_div x y = Inr q \<longleftrightarrow> y \<noteq> 0 \<and> q = x / y"
  by (auto simp: float_div_def)

lemma floors_metD:
  assumes "floors_met a st"
  obtains ny nx where "nreads_ychrom st = Some ny" and "nreads_xchrom st = Some nx"
    and "\<not> (ny < min_y a \<or> nx < min_x a)"
  using assms by (auto simp: floors_met_def split: option.splits)

lemma classify_single:
  assumes "\<not> two_thresholds a" and "floors_met a st" and "classify a st = Inr st'"
  shows "\<exists>ny nx r t. nreads_ychrom st = Some ny \<and> nreads_xchrom st = Some nx \<and> nx \<noteq> 0 \<and>
           r = of_int ny / of_int nx \<and>
           (case arg_threshold a of
              Some t0 \<Rightarrow> t = t0
            | None \<Rightarrow> \<exists>sy sx. seqlen_ychrom st = Bound sy \<and> seqlen_xchrom st = Bound sx \<and>
                        sx \<noteq> 0 \<and> t = of_int sy * (1 / 4) / of_int sx) \<and>
           st' = st\<lparr>ratio := Bound (Some r), threshold := Bound (Some t),
                     sex := Bound (if t < r then ''male'' else ''female'')\<rparr>"
proof -
  from assms(2) obtain ny nx where n: "nreads_ychrom st = Some ny" "nreads_xchrom st = Some nx"
    and fl: "\<not> (ny < min_y a \<or> nx < min_x a)"
    by (rule floors_metD)
  show ?thesis
  proof (cases "arg_threshold a")
    case None
    with assms(1,3) n fl show ?thesis
      by (auto simp: classify_def and_then_eq_Inr read_var_eq_Inr float_div_eq_Inr
               dest!: py_float_eq_Inr split: if_splits)
  next
    case (Some t0)
    with assms(1,3) n fl show ?thesis
      by (auto simp: classify_def and_then_eq_Inr float_div_eq_Inr and_then_Inr
               dest!: py_float_eq_Inr split: if_splits)
  qed
qed



lemma append_row_eq_Inr:
  "append_row name st = Inr st' \<longleftrightarrow>
     (\<exists>s r t. sex st = Bound s \<and> ratio st = Bound r \<and> threshold st = Bound t \<and>
        st' = st\<lparr>data := data st @
                 [\<lparr>col_id = name, col_sex = s, col_nreads_ychrom = nreads_ychrom st,
                   col_nreads_xchrom = nreads_xchrom st, col_ratio = r,
                   col_threshold = t\<rparr>]\<rparr>)"
  by (auto simp: append_row_def and_then_eq_Inr read_var_eq_Inr)

lemma read_file_keeps_rest:
  assumes "read_file a ls st = Inr st1"
  shows "sex st1 = sex st \<and> ratio st1 = ratio st \<and> threshold st1 = threshold st \<and>
         data st1 = data st"
  using scan_lines_keeps_rest[OF assms[unfolded read_file_def]] by simp

lemma process_sample_eq_Inr:
  "process_sample a entry st = Inr st' \<longleftrightarrow>
     (\<exists>st1 st2. read_file a (snd entry) st = Inr st1 \<and> classify a st1 = Inr st2 \<and>
        append_row (fst (splitext (fst entry))) st2 = Inr st')"
  by (simp add: process_sample_def and_then_eq_Inr)


text \<open>Unfolding everything, for runs on concrete inputs.\<close>

lemmas run_defs =
  main_def initial_def process_entry_def selected_def startswith_dot_def splitext_def
  process_sample_def read_file_def scan_line_def field_def index_def py_int_def strip_def
  is_space_def is_digit_def digits_value_def and_then_def classify_def py_float_def
  float_div_def read_var_def append_row_def written_def uniform_threshold_def
  dropna_unique_def map_filter_simps DataFrame_def drop_column_def col_names_def
  row_cells_def idxstats_line_def defaults_def file_A_def file_B_def file_C_def file_D_def
  file_E_def thresholds_missing_def floors_met_def

subsection \<open>Rows of samples below a minimum count\<close>

text \<open>
  The branch of line 168 assigns \<^verbatim>\<open>sex\<close> only, where the branch of lines 160 to 162
  also assigns \<^verbatim>\<open>ratio\<close> and \<^verbatim>\<open>threshold\<close>. Line 203 then reads whatever the two
  variables hold: the values of the last sample that assigned them, or nothing at all.
\<close>

text \<open>
  C1. The ratio of a row is present if and only if both read counts were found and each
  meets its minimum. The run below refutes it on the code: sample B has no read on
  X, below \<open>min_x = 1\<close>, and its row carries the ratio 10 of sample A.
\<close>

theorem C1_ratio_left_from_previous_sample:
  "main defaults [file_A, file_B] =
     Inr \<lparr>columns = [''id'', ''sex'', ''nreads_ychrom'', ''nreads_xchrom'', ''ratio''],
          cells = [[CStr ''A'', CStr ''male'', CInt (Some 50), CInt (Some 5),
                    CFloat (Some 10)],
                   [CStr ''B'', CStr ''undetermined'', CInt (Some 50), CInt (Some 0),
                    CFloat (Some 10)]]\<rparr>"
  by (simp add: run_defs)

text \<open>
  C2. The threshold of a row is present only in one-threshold mode and only when the ratio
  of that sample was computed. The run below refutes it on the code: no ratio is computed
  for sample B, and its row carries the threshold 1/8 of sample A. Sample C, with another
  length of X, makes the thresholds differ, so that the column is written.
\<close>

theorem C2_threshold_left_from_previous_sample:
  "main defaults [file_A, file_B, file_C] =
     Inr \<lparr>columns = [''id'', ''sex'', ''nreads_ychrom'', ''nreads_xchrom'', ''ratio'',
                     ''threshold''],
          cells = [[CStr ''A'', CStr ''male'', CInt (Some 50), CInt (Some 5),
                    CFloat (Some 10), CFloat (Some (1 / 8))],
                   [CStr ''B'', CStr ''undetermined'', CInt (Some 50), CInt (Some 0),
                    CFloat (Some 10), CFloat (Some (1 / 8))],
                   [CStr ''C'', CStr ''male'', CInt (Some 30), CInt (Some 10),
                    CFloat (Some 3), CFloat (Some (1 / 16))]]\<rparr>"
  by (simp add: run_defs)

text \<open>
  C4. A sample below a minimum count never aborts the batch: it is marked undetermined
  and its row is written. The run below refutes it on the code: sample B is the first
  sample, \<^verbatim>\<open>ratio\<close> was never assigned, and line 203 raises UnboundLocalError; no table
  is written.
\<close>

theorem C4_first_sample_below_minimum_aborts:
  "main defaults [file_B] = Inl UnboundLocalError"
  by (simp add: run_defs)

subsection \<open>Which line of a file is retained\<close>

text \<open>
  C10. A line that contains both the Y name and the X name is attributed to Y only: it
  sets the read count and the length of Y from its own fields and leaves the count and
  the length of X as they were.
\<close>

theorem C10_line_with_both_names_sets_Y_only:
  assumes "py_in (ychrom a) line" and "py_in (xchrom a) line"
    and "scan_line a line st = Inr st'"
  shows "nreads_xchrom st' = nreads_xchrom st \<and> seqlen_xchrom st' = seqlen_xchrom st \<and>
         (\<exists>n len. field line 2 = Inr n \<and> field line 1 = Inr len \<and>
            nreads_ychrom st' = Some n \<and> seqlen_ychrom st' = Bound len)"
proof -
  from scan_line_y_sets[OF assms(1,3)] obtain n len where
    "field line 2 = Inr n" "field line 1 = Inr len"
    "st' = st\<lparr>nreads_ychrom := Some n, seqlen_ychrom := Bound len\<rparr>"
    by blast
  then show ?thesis by simp
qed

theorem C10_witness:
  "py_in (ychrom (defaults\<lparr>xchrom := ''chr''\<rparr>)) (idxstats_line ''chrY'' ''1000'' ''50'') \<and>
   py_in (xchrom (defaults\<lparr>xchrom := ''chr''\<rparr>)) (idxstats_line ''chrY'' ''1000'' ''50'') \<and>
   scan_line (defaults\<lparr>xchrom := ''chr''\<rparr>) (idxstats_line ''chrY'' ''1000'' ''50'') initial =
     Inr (initial\<lparr>nreads_ychrom := Some 50, seqlen_ychrom := Bound 1000\<rparr>) \<and>
   nreads_xchrom (initial\<lparr>nreads_ychrom := Some 50, seqlen_ychrom := Bound 1000\<rparr>) = None"
proof -
  have y: "py_in (ychrom (defaults\<lparr>xchrom := ''chr''\<rparr>)) (idxstats_line ''chrY'' ''1000'' ''50'')"
    by (simp add: defaults_def idxstats_line_def)
  have x: "py_in (xchrom (defaults\<lparr>xchrom := ''chr''\<rparr>)) (idxstats_line ''chrY'' ''1000'' ''50'')"
    by (simp add: defaults_def idxstats_line_def)
  have s: "scan_line (defaults\<lparr>xchrom := ''chr''\<rparr>) (idxstats_line ''chrY'' ''1000'' ''50'') initial =
     Inr (initial\<lparr>nreads_ychrom := Some 50, seqlen_ychrom := Bound 1000\<rparr>)"
    by (simp add: run_defs)
  from C10_line_with_both_names_sets_Y_only[OF y x s] y x s show ?thesis
    by (simp add: initial_def)
qed

text \<open>
  C3, as the claim states it: the counts retained for a chromosome come from the first
  line that contains its name. In file E two lines contain the Y name, the first with 50
  reads and the second with 7: the code retains 7.
\<close>

theorem C3_first_match_counterexample:
  "py_in (ychrom defaults) (hd (snd file_E)) \<and> field (hd (snd file_E)) 2 = Inr 50 \<and>
   read_file defaults (snd file_E) initial =
     Inr (initial\<lparr>nreads_ychrom := Some 7, nreads_xchrom := Some 5,
                  seqlen_ychrom := Bound 500, seqlen_xchrom := Bound 2000\<rparr>)"
  by (simp add: run_defs)

text \<open>
  C3, amended: the loop of lines 146 to 152 has no exit, so the last matching line wins.
  When the scan of a file ends without an exception, the count and the length retained
  for Y are fields 2 and 1 of the last line that contains the Y name, and those retained
  for X are fields 2 and 1 of the last line that contains the X name and not the Y name.
\<close>

theorem C3_last_match_wins:
  assumes "read_file a (pre @ line # post) st = Inr st'"
  shows "(py_in (ychrom a) line \<and> (\<forall>m \<in> set post. \<not> py_in (ychrom a) m) \<longrightarrow>
            (\<exists>n len. field line 2 = Inr n \<and> field line 1 = Inr len \<and>
               nreads_ychrom st' = Some n \<and> seqlen_ychrom st' = Bound len)) \<and>
         (\<not> py_in (ychrom a) line \<and> py_in (xchrom a) line \<and>
          (\<forall>m \<in> set post. py_in (ychrom a) m \<or> \<not> py_in (xchrom a) m) \<longrightarrow>
            (\<exists>n len. field line 2 = Inr n \<and> field line 1 = Inr len \<and>
               nreads_xchrom st' = Some n \<and> seqlen_xchrom st' = Bound len))"
  using assms scan_lines_last_y scan_lines_last_x unfolding read_file_def by blast

theorem C3_witness:
  "read_file defaults (snd file_E) initial =
     Inr (initial\<lparr>nreads_ychrom := Some 7, nreads_xchrom := Some 5,
                  seqlen_ychrom := Bound 500, seqlen_xchrom := Bound 2000\<rparr>) \<and>
   py_in (ychrom defaults) (snd file_E ! 1) \<and>
   \<not> py_in (ychrom defaults) (snd file_E ! 2) \<and>
   py_in (xchrom defaults) (snd file_E ! 2) \<and>
   field (snd file_E ! 1) 2 = Inr 7 \<and> field (snd file_E ! 1) 1 = Inr 500 \<and>
   field (snd file_E ! 2) 2 = Inr 5 \<and> field (snd file_E ! 2) 1 = Inr 2000"
proof -
  let ?l1 = "idxstats_line ''chrY'' ''1000'' ''50''"
  let ?l2 = "idxstats_line ''chrY_random'' ''500'' ''7''"
  let ?l3 = "idxstats_line ''chrX'' ''2000'' ''5''"
  let ?st = "initial\<lparr>nreads_ychrom := Some 7, nreads_xchrom := Some 5,
                      seqlen_ychrom := Bound 500, seqlen_xchrom := Bound 2000\<rparr>"
  have e: "snd file_E = [?l1, ?l2, ?l3]"
    by (simp add: file_E_def)
  have r: "read_file defaults [?l1, ?l2, ?l3] initial = Inr ?st"
    by (simp add: run_defs)
  have y2: "py_in (ychrom defaults) ?l2"
    by (simp add: defaults_def idxstats_line_def)
  have y3: "\<not> py_in (ychrom defaults) ?l3"
    by (simp add: defaults_def idxstats_line_def)
  have x3: "py_in (xchrom defaults) ?l3"
    by (simp add: defaults_def idxstats_line_def)
  from r have ry: "read_file defaults ([?l1] @ ?l2 # [?l3]) initial = Inr ?st"
    by simp
  from r have rx: "read_file defaults ([?l1, ?l2] @ ?l3 # []) initial = Inr ?st"
    by simp
  from C3_last_match_wins[OF ry] y2 y3
  have fy: "field ?l2 2 = Inr 7 \<and> field ?l2 1 = Inr 500"
    by (auto simp: initial_def)
  from C3_last_match_wins[OF rx] y3 x3
  have fx: "field ?l3 2 = Inr 5 \<and> field ?l3 1 = Inr 2000"
    by (auto simp: initial_def)
  from e r y2 y3 x3 fy fx show ?thesis by simp
qed

subsection \<open>The decision\<close>






text \<open>
  C9. In one-threshold mode without a fixed threshold, a sample whose ratio is computed
  gets the threshold \<open>0.25 * seqlen_y / seqlen_x\<close>, where the two lengths are those that
  the scan of this sample's own file retained: each is field 1 of a line of that file.
\<close>

theorem C9_auto_threshold_from_own_lengths:
  assumes "\<not> two_thresholds a" and "arg_threshold a = None"
    and "read_file a (snd entry) st = Inr st1" and "floors_met a st1"
    and "process_sample a entry st = Inr st'"
  shows "\<exists>ly lx sy sx rw. ly \<in> set (snd entry) \<and> lx \<in> set (snd entry) \<and>
           field ly 1 = Inr sy \<and> field lx 1 = Inr sx \<and>
           seqlen_ychrom st1 = Bound sy \<and> seqlen_xchrom st1 = Bound sx \<and>
           data st' = data st @ [rw] \<and>
           col_threshold rw = Some (1 / 4 * of_int sy / of_int sx)"
proof -
  let ?st0 = "st\<lparr>nreads_ychrom := None, nreads_xchrom := None\<rparr>"
  from assms(3) have sc: "scan_lines a (snd entry) ?st0 = Inr st1"
    by (simp add: read_file_def)
  from assms(4) obtain ny nx where n: "nreads_ychrom st1 = Some ny" "nreads_xchrom st1 = Some nx"
    by (rule floors_metD)
  from scan_lines_found_y[OF sc] n(1) obtain ly sy where
    ly: "ly \<in> set (snd entry)" "field ly 1 = Inr sy" "seqlen_ychrom st1 = Bound sy"
    by auto
  from scan_lines_found_x[OF sc] n(2) obtain lx sx where
    lx: "lx \<in> set (snd entry)" "field lx 1 = Inr sx" "seqlen_xchrom st1 = Bound sx"
    by auto
  from assms(3,5) obtain st2 where c: "classify a st1 = Inr st2"
    and ap: "append_row (fst (splitext (fst entry))) st2 = Inr st'"
    by (auto simp: process_sample_eq_Inr)
  from classify_single[OF assms(1,4) c] assms(2) ly(3) lx(3) obtain r where
    st2: "st2 = st1\<lparr>ratio := Bound (Some r),
                      threshold := Bound (Some (of_int sy * (1 / 4) / of_int sx)),
                      sex := Bound (if of_int sy * (1 / 4) / of_int sx < r
                                    then ''male'' else ''female'')\<rparr>"
    by auto
  from read_file_keeps_rest[OF assms(3)] have d: "data st1 = data st" by simp
  from ap st2 d obtain rw where
    "data st' = data st @ [rw]" "col_threshold rw = Some (1 / 4 * of_int sy / of_int sx)"
    by (auto simp: append_row_eq_Inr)
  with ly lx show ?thesis by blast
qed

theorem C9_witness:
  "\<not> two_thresholds defaults \<and> arg_threshold defaults = None \<and>
   (\<exists>st1 st'. read_file defaults (snd file_C) initial = Inr st1 \<and>
      floors_met defaults st1 \<and> process_sample defaults file_C initial = Inr st' \<and>
      seqlen_ychrom st1 = Bound 1000 \<and> seqlen_xchrom st1 = Bound 4000 \<and>
      map col_threshold (data st') = [Some (1 / 16)])"
proof -
  let ?st1 = "initial\<lparr>nreads_ychrom := Some 30, nreads_xchrom := Some 10,
       seqlen_ychrom := Bound 1000, seqlen_xchrom := Bound 4000\<rparr>"
  let ?rw = "\<lparr>col_id = ''C'', col_sex = ''male'', col_nreads_ychrom = Some 30,
             col_nreads_xchrom = Some 10, col_ratio = Some 3, col_threshold = Some (1 / 16)\<rparr>"
  let ?st' = "?st1\<lparr>sex := Bound ''male'', ratio := Bound (Some 3),
                    threshold := Bound (Some (1 / 16)), data := [?rw]\<rparr>"
  have m: "\<not> two_thresholds defaults" and t: "arg_threshold defaults = None"
    by (simp_all add: defaults_def)
  have r: "read_file defaults (snd file_C) initial = Inr ?st1"
    by (simp add: run_defs)
  have f: "floors_met defaults ?st1"
    by (simp add: floors_met_def defaults_def)
  have p: "process_sample defaults file_C initial = Inr ?st'"
    by (simp add: run_defs)
  have s: "seqlen_ychrom ?st1 = Bound 1000" "seqlen_xchrom ?st1 = Bound 4000"
    "map col_threshold (data ?st') = [Some (1 / 16)]"
    by (simp_all add: initial_def)
  from C9_auto_threshold_from_own_lengths[OF m t r f p] m t r f p s show ?thesis
    by - (intro conjI exI; assumption)
qed

subsection \<open>Two-threshold mode without its bounds\<close>




subsection \<open>The threshold column\<close>



end
